theory Spec2Isabelle
  imports Complex_Main "HOL-Library.Word" "HOL-Library.Signed_Division"
begin

unbundle bit_operations_syntax

section \<open>Data model of the datastore package\<close>

text \<open>
  The entity structs (\<open>datastore.Target\<close>, \<open>datastore.Job\<close>, \<open>datastore.Runner\<close>) are
  declared in a file of package \<open>datastore\<close> that is not part of the sources at hand. The
  fields that the functions below read or assign are taken from those functions; the
  remaining ones follow section 3 of the specification.
\<close>

text \<open>\<open>uuid.UUID\<close> is a 16-byte array; \<open>time.Time\<close> is an instant, counted here in
  nanoseconds since the epoch; \<open>time.Duration\<close> is a signed 64-bit count of nanoseconds.\<close>

type_synonym uuid = "128 word"
type_synonym time = int
type_synonym Duration = int

text \<open>\<open>sql.NullString\<close> of the Go standard library.\<close>

record NullString =
  String :: string
  Valid :: bool

text \<open>\<open>type TargetStatus string\<close>, \<open>type RunnerStatus string\<close>; the resource class is a
  symbolic size, kept as its name.\<close>

type_synonym TargetStatus = string
type_synonym RunnerStatus = string
type_synonym ResourceType = string

text \<open>Modelled from the spec: the declaration of the status constants is missing; the
  specification names the target statuses \<open>active\<close>, \<open>err\<close>, \<open>pending\<close>, \<open>deleted\<close>.\<close>

definition TargetStatusDeleted :: TargetStatus where
  "TargetStatusDeleted = ''deleted''"

text \<open>Modelled from the spec: the struct declaration of \<open>Target\<close> is missing. \<open>UUID\<close>,
  \<open>Scope\<close>, \<open>GHEDomain\<close>, \<open>GitHubPersonalToken\<close>, \<open>ResourceType\<close>, \<open>RunnerUser\<close>,
  \<open>Status\<close>, \<open>StatusDescription\<close>, \<open>GitHubToken\<close>, \<open>TokenExpiredAt\<close>, \<open>ProviderURL\<close>,
  \<open>CreatedAt\<close> and \<open>UpdatedAt\<close> are the fields and columns the source names; the
  CI-domain is optional.\<close>

record Target =
  UUID :: uuid
  Scope :: string
  GHEDomain :: NullString
  GitHubPersonalToken :: string
  GitHubToken :: string
  TokenExpiredAt :: time
  ResourceType :: ResourceType
  RunnerUser :: string
  ProviderURL :: NullString
  Status :: TargetStatus
  StatusDescription :: NullString
  CreatedAt :: time
  UpdatedAt :: time

text \<open>Modelled from the spec: the struct declaration of \<open>Job\<close> is missing. The source
  reads \<open>UUID\<close> only; the specification lists the owning target, the CI-domain, the
  repository full name, the raw webhook payload, an optional run id and a timestamp.\<close>

record Job =
  JobUUID :: uuid
  JobTargetID :: uuid
  JobGHEDomain :: NullString
  JobRepository :: string
  JobCheckEventJSON :: string
  JobRunID :: "int option"
  JobCreatedAt :: time

text \<open>Modelled from the spec: the struct declaration of \<open>Runner\<close> is missing. The source
  reads \<open>UUID\<close>, \<open>TargetID\<close>, \<open>CreatedAt\<close> and \<open>RepositoryURL\<close>; the specification adds
  shoes type, cloud id, resource class, status and the deletion timestamp.\<close>

record Runner =
  RunnerUUID :: uuid
  RunnerTargetID :: uuid
  RunnerShoesType :: string
  RunnerCloudID :: string
  RunnerRepositoryURL :: string
  RunnerResourceType :: ResourceType
  RunnerStatus :: RunnerStatus
  RunnerCreatedAt :: time
  RunnerDeletedAt :: "time option"

text \<open>
  Go errors. \<open>datastore.ErrNotFound\<close> and \<open>sql.ErrNoRows\<close> are sentinel values;
  \<open>fmt.Errorf\<close> with the verb \<open>%w\<close> wraps an error under a message, without it the
  result is a plain message; every other error a database driver can hand back is a
  \<open>DriverError\<close>.
\<close>

datatype error =
    ErrNotFound
  | ErrNoRows
  | ErrorString string
  | Wrapped string error
  | DriverError string

text \<open>\<open>errors.Is\<close>: the error itself or one reached by unwrapping.\<close>

fun errors_Is :: "error \<Rightarrow> error \<Rightarrow> bool" where
  "errors_Is (Wrapped msg e) target = (Wrapped msg e = target \<or> errors_Is e target)"
| "errors_Is e target = (e = target)"

section \<open>Iterating over a Go map\<close>

text \<open>
  A Go map is a partial function. The order in which \<open>for k, v := range m\<close> visits the
  entries is chosen by the runtime and is not specified; it is a parameter here, a list
  of keys. The runtime visits every key of the map exactly once, which is
  \<open>range_order\<close>.
\<close>

definition range_entries :: "'k list \<Rightarrow> ('k \<rightharpoonup> 'v) \<Rightarrow> ('k \<times> 'v) list" where
  "range_entries order m = List.map_filter (\<lambda>k. map_option (Pair k) (m k)) order"

definition range_order :: "'k list \<Rightarrow> ('k \<rightharpoonup> 'v) \<Rightarrow> bool" where
  "range_order order m \<longleftrightarrow> distinct order \<and> set order = dom m"

section \<open>The in-memory datastore\<close>

text \<open>The struct \<open>Memory\<close> without its mutex: every method holds the lock for its whole
  body, so a method is one atomic step on the three maps.\<close>

record Memory =
  targets :: "uuid \<rightharpoonup> Target"
  jobs :: "uuid \<rightharpoonup> Job"
  runners :: "uuid \<rightharpoonup> Runner"

definition Memory_New :: "Memory" where
  "Memory_New = \<lparr>targets = Map.empty, jobs = Map.empty, runners = Map.empty\<rparr>"

text \<open>A method that returns \<open>error\<close> yields the error (\<open>None\<close> for \<open>nil\<close>) and the
  datastore after the call; one that returns \<open>(*T, error)\<close> yields the pointer
  (\<open>None\<close> for \<open>nil\<close>), the error and the datastore after the call. The parameter \<open>id\<close>
  of the source is \<open>ident\<close> here, and a method \<open>F\<close> of \<open>*Memory\<close> is \<open>Memory_F\<close>.\<close>

definition Memory_CreateTarget :: "Memory \<Rightarrow> Target \<Rightarrow> error option \<times> Memory" where
  "Memory_CreateTarget m target = (None, m\<lparr>targets := (targets m)(UUID target \<mapsto> target)\<rparr>)"

definition Memory_GetTarget :: "Memory \<Rightarrow> uuid \<Rightarrow> (Target option \<times> error option) \<times> Memory" where
  "Memory_GetTarget m ident =
     (case targets m ident of
        None \<Rightarrow> ((None, Some ErrNotFound), m)
      | Some t \<Rightarrow> ((Some t, None), m))"

text \<open>The loop of \<open>GetTargetByScope\<close> over the entries in the order of the iteration: the
  first target whose scope is the requested one is returned.\<close>

fun Memory_GetTargetByScope_loop :: "string \<Rightarrow> (uuid \<times> Target) list \<Rightarrow> Target option" where
  "Memory_GetTargetByScope_loop scope [] = None"
| "Memory_GetTargetByScope_loop scope ((k, t) # rest) =
     (if Scope t = scope then Some t else Memory_GetTargetByScope_loop scope rest)"

definition Memory_GetTargetByScope ::
  "uuid list \<Rightarrow> Memory \<Rightarrow> string \<Rightarrow> (Target option \<times> error option) \<times> Memory" where
  "Memory_GetTargetByScope order m scope =
     (case Memory_GetTargetByScope_loop scope (range_entries order (targets m)) of
        Some t \<Rightarrow> ((Some t, None), m)
      | None \<Rightarrow> ((None, Some ErrNotFound), m))"

definition Memory_UpdateTargetStatus ::
  "Memory \<Rightarrow> uuid \<Rightarrow> TargetStatus \<Rightarrow> string \<Rightarrow> error option \<times> Memory" where
  "Memory_UpdateTargetStatus m targetID newStatus description =
     (case targets m targetID of
        None \<Rightarrow> (Some (ErrorString ''not found''), m)
      | Some t0 \<Rightarrow>
          (let t1 = t0\<lparr>Status := newStatus\<rparr>;
               t2 = (if description \<noteq> ''''
                     then t1\<lparr>StatusDescription := (StatusDescription t1)\<lparr>Valid := True\<rparr>\<rparr>
                     else t1\<lparr>StatusDescription := (StatusDescription t1)\<lparr>Valid := False\<rparr>\<rparr>);
               t3 = t2\<lparr>StatusDescription := (StatusDescription t2)\<lparr>String := description\<rparr>\<rparr>
           in (None, m\<lparr>targets := (targets m)(targetID \<mapsto> t3)\<rparr>)))"

definition Memory_EnqueueJob :: "Memory \<Rightarrow> Job \<Rightarrow> error option \<times> Memory" where
  "Memory_EnqueueJob m job = (None, m\<lparr>jobs := (jobs m)(JobUUID job \<mapsto> job)\<rparr>)"

definition Memory_CreateRunner :: "Memory \<Rightarrow> Runner \<Rightarrow> error option \<times> Memory" where
  "Memory_CreateRunner m runner = (None, m\<lparr>runners := (runners m)(RunnerUUID runner \<mapsto> runner)\<rparr>)"

definition Memory_GetRunner :: "Memory \<Rightarrow> uuid \<Rightarrow> (Runner option \<times> error option) \<times> Memory" where
  "Memory_GetRunner m ident =
     (case runners m ident of
        None \<Rightarrow> ((None, Some ErrNotFound), m)
      | Some r \<Rightarrow> ((Some r, None), m))"

text \<open>\<open>DeleteRunner\<close> removes the key; \<open>deletedAt\<close> and \<open>reason\<close> are not used.\<close>

definition Memory_DeleteRunner ::
  "Memory \<Rightarrow> uuid \<Rightarrow> time \<Rightarrow> RunnerStatus \<Rightarrow> error option \<times> Memory" where
  "Memory_DeleteRunner m ident deletedAt reason =
     (None, m\<lparr>runners := (runners m)(ident := None)\<rparr>)"

definition Memory_GetLock :: "Memory \<Rightarrow> error option \<times> Memory" where
  "Memory_GetLock m = (None, m)"

text \<open>The string constant \<open>datastore.IsNotLocked\<close> is declared outside the sources at
  hand; it is a parameter.\<close>

definition Memory_IsLocked :: "string \<Rightarrow> Memory \<Rightarrow> (string \<times> error option) \<times> Memory" where
  "Memory_IsLocked datastore_IsNotLocked m = ((datastore_IsNotLocked, None), m)"

section \<open>The relational datastore\<close>

text \<open>
  The database is outside the program: \<open>m.Conn\<close> is a pair of functions giving the
  answer of the server to a statement. \<open>GetContext\<close> scans the first row of the answer
  into the destination and fails with \<open>sql.ErrNoRows\<close> when there is none;
  \<open>ExecContext\<close> reports the error of the statement.
\<close>

datatype sql_arg = ArgUUID uuid | ArgString string | ArgNullString NullString

record MySQL =
  GetContext :: "string \<Rightarrow> sql_arg list \<Rightarrow> error + Target"
  ExecContext :: "string \<Rightarrow> sql_arg list \<Rightarrow> error option"

text \<open>\<open>uuid.UUID.String\<close>: the canonical text of the 16 bytes, 32 hexadecimal digits in
  groups of 8, 4, 4, 4 and 12.\<close>

definition hex_digit :: "nat \<Rightarrow> char" where
  "hex_digit n = ''0123456789abcdef'' ! (n mod 16)"

definition uuid_String :: "uuid \<Rightarrow> string" where
  "uuid_String u =
     (let h = map (\<lambda>i. hex_digit (unat (drop_bit (4 * (31 - i)) u AND 15))) [0..<32]
      in take 8 h @ ''-'' @ take 4 (drop 8 h) @ ''-'' @ take 4 (drop 12 h) @ ''-'' @
         take 4 (drop 16 h) @ ''-'' @ drop 20 h)"

definition CreateTarget_query :: string where
  "CreateTarget_query =
     ''INSERT INTO targets(uuid, scope, ghe_domain, github_personal_token, resource_type, runner_user) VALUES (?, ?, ?, ?, ?, ?)''"

definition MySQL_CreateTarget :: "MySQL \<Rightarrow> Target \<Rightarrow> error option" where
  "MySQL_CreateTarget m target =
     (case ExecContext m CreateTarget_query
             [ArgUUID (UUID target), ArgString (Scope target), ArgNullString (GHEDomain target),
              ArgString (GitHubPersonalToken target), ArgString (ResourceType target),
              ArgString (RunnerUser target)] of
        Some err \<Rightarrow> Some (Wrapped ''failed to execute INSERT query'' err)
      | None \<Rightarrow> None)"

definition GetTarget_query :: string where
  "GetTarget_query =
     ''SELECT uuid, scope, ghe_domain, github_personal_token, resource_type, runner_user, created_at, updated_at FROM targets WHERE uuid = ?''"

definition MySQL_GetTarget :: "MySQL \<Rightarrow> uuid \<Rightarrow> Target option \<times> error option" where
  "MySQL_GetTarget m ident =
     (case GetContext m GetTarget_query [ArgString (uuid_String ident)] of
        Inl err \<Rightarrow>
          (if errors_Is err ErrNoRows then (None, Some ErrNotFound)
           else (None, Some (Wrapped ''failed to execute SELECT query'' err)))
      | Inr t \<Rightarrow> (Some t, None))"

text \<open>The statement of \<open>GetTargetByScope\<close> is built by \<open>fmt.Sprintf\<close>: the scope is
  spliced between double quotes, and the condition on \<open>ghe_domain\<close> is appended only for
  a non-empty \<open>gheDomain\<close>.\<close>

definition GetTargetByScope_query :: "string \<Rightarrow> string \<Rightarrow> string" where
  "GetTargetByScope_query gheDomain scope =
     (let query =
        ''SELECT uuid, scope, ghe_domain, github_personal_token, resource_type, runner_user, created_at, updated_at FROM targets WHERE scope = '' @ [CHR 0x22] @ scope @ [CHR 0x22]
      in if gheDomain \<noteq> ''''
         then query @ '' AND ghe_domain = '' @ [CHR 0x22] @ gheDomain @ [CHR 0x22]
         else query)"

definition MySQL_GetTargetByScope ::
  "MySQL \<Rightarrow> string \<Rightarrow> string \<Rightarrow> Target option \<times> error option" where
  "MySQL_GetTargetByScope m gheDomain scope =
     (case GetContext m (GetTargetByScope_query gheDomain scope) [] of
        Inl err \<Rightarrow>
          (if errors_Is err ErrNoRows then (None, Some ErrNotFound)
           else (None, Some (Wrapped ''failed to execute SELECT query'' err)))
      | Inr t \<Rightarrow> (Some t, None))"

section \<open>The pending-run sweep of the Recoverer\<close>

text \<open>\<open>github.WorkflowRun\<close> of the client library: every field is a pointer, \<open>None\<close> is
  \<open>nil\<close>. \<open>GetStatus\<close> reads through the pointer and gives the empty string for
  \<open>nil\<close>.\<close>

record WorkflowRun =
  WorkflowRunID :: "int option"
  WorkflowRunStatus :: "string option"
  WorkflowRunCreatedAt :: "time option"

definition GetStatus :: "WorkflowRun \<Rightarrow> string" where
  "GetStatus r = (case WorkflowRunStatus r of None \<Rightarrow> '''' | Some s \<Rightarrow> s)"

text \<open>A call either returns or panics (here: the dereference of a \<open>nil\<close> pointer).\<close>

datatype 'a outcome = Return 'a | Panic string

definition Minute :: Duration where
  "Minute = 60 * 1000000000"

definition Hour :: Duration where
  "Hour = 60 * Minute"

definition maxDuration :: Duration where
  "maxDuration = 2 ^ 63 - 1"

definition minDuration :: Duration where
  "minDuration = - (2 ^ 63)"

text \<open>\<open>Time.Sub\<close> saturates at the range of \<open>Duration\<close>; \<open>time.Since t\<close> is
  \<open>time.Now().Sub(t)\<close>, with the current instant \<open>now\<close> as a parameter.\<close>

definition time_Sub :: "time \<Rightarrow> time \<Rightarrow> Duration" where
  "time_Sub t u =
     (let d = t - u
      in if maxDuration < d then maxDuration else if d < minDuration then minDuration else d)"

definition time_Since :: "time \<Rightarrow> time \<Rightarrow> Duration" where
  "time_Since now t = time_Sub now t"

text \<open>
  \<open>Duration.Minutes\<close>: the whole minutes plus the remaining nanoseconds as a fraction,
  with Go's truncating division and remainder. The source computes in \<open>float64\<close>; the
  model computes in the reals. Both operands of the sum and the bound 30 are exact in
  \<open>float64\<close>, the fraction stays away from 1 by more than one part in \<open>10\<^sup>1\<^sup>1\<close> and
  rounding is monotone, so the comparison with 30 has the same result in both.
\<close>

definition Minutes :: "Duration \<Rightarrow> real" where
  "Minutes d = real_of_int (d sdiv Minute) + real_of_int (d smod Minute) / (60 * 1000000000)"

fun getPendingRunByRepo_loop ::
  "time \<Rightarrow> WorkflowRun list \<Rightarrow> WorkflowRun list \<Rightarrow> WorkflowRun list outcome" where
  "getPendingRunByRepo_loop now pendingRuns [] = Return pendingRuns"
| "getPendingRunByRepo_loop now pendingRuns (r # rs) =
     (if GetStatus r = ''queued'' \<or> GetStatus r = ''pending''
      then (case WorkflowRunCreatedAt r of
              None \<Rightarrow> Panic ''invalid memory address or nil pointer dereference''
            | Some createdAt \<Rightarrow>
                (let oldMinutes = (30 :: int);
                     sinceMinutes = Minutes (time_Since now createdAt)
                 in if sinceMinutes \<ge> real_of_int oldMinutes
                    then getPendingRunByRepo_loop now (pendingRuns @ [r]) rs
                    else getPendingRunByRepo_loop now pendingRuns rs))
      else getPendingRunByRepo_loop now pendingRuns rs)"

text \<open>\<open>gh.ListWorkflowRunsNewestOneHundred\<close> calls the CI service; its result is the
  parameter \<open>listed\<close>.\<close>

definition getPendingRunByRepo ::
  "time \<Rightarrow> WorkflowRun list \<times> error option \<Rightarrow> (WorkflowRun list \<times> error option) outcome" where
  "getPendingRunByRepo now listed =
     (case listed of
        (runs, Some err) \<Rightarrow> Return ([], Some (Wrapped ''failed to list runs'' err))
      | (runs, None) \<Rightarrow>
          (case getPendingRunByRepo_loop now [] runs of
             Panic p \<Rightarrow> Panic p
           | Return pendingRuns \<Rightarrow> Return (pendingRuns, None)))"

section \<open>The recent repositories of the Recoverer\<close>

text \<open>The first loop of \<open>getRecentRepositories\<close>: the set of repository URLs, a map to
  the empty struct.\<close>

fun getRecentRepositories_unique :: "(string \<rightharpoonup> unit) \<Rightarrow> Runner list \<Rightarrow> (string \<rightharpoonup> unit)" where
  "getRecentRepositories_unique recentActiveRepositories [] = recentActiveRepositories"
| "getRecentRepositories_unique recentActiveRepositories (r # rs) =
     (let u = RunnerRepositoryURL r
      in if recentActiveRepositories u = None
         then getRecentRepositories_unique (recentActiveRepositories(u \<mapsto> ())) rs
         else getRecentRepositories_unique recentActiveRepositories rs)"

text \<open>
  \<open>ds.ListRunnersLogBySince\<close> is a method of the datastore interface, a parameter here.
  \<open>sort.SliceStable\<close> with \<open>After\<close> as the order is a stable sort by descending creation
  time. The result is collected by a second loop, over the map, in the order \<open>order\<close>
  that the runtime chooses.
\<close>

definition getRecentRepositories ::
  "time \<Rightarrow> (time \<Rightarrow> Runner list \<times> error option) \<Rightarrow> string list \<Rightarrow> string list \<times> error option" where
  "getRecentRepositories now ds_ListRunnersLogBySince order =
     (let recent = now + (- 24 * Hour)
      in case ds_ListRunnersLogBySince recent of
           (recentRunners, Some err) \<Rightarrow>
             ([], Some (Wrapped ''failed to get targets from datastore'' err))
         | (recentRunners, None) \<Rightarrow>
             (let sorted = sort_key (\<lambda>r. - RunnerCreatedAt r) recentRunners;
                  recentActiveRepositories = getRecentRepositories_unique Map.empty sorted
              in (map fst (range_entries order recentActiveRepositories), None)))"

section \<open>Notions of the specification\<close>

text \<open>A run that the sweep has to select, in the words of the specification: its status
  is \<open>queued\<close> or \<open>pending\<close>, and at least 30 minutes (in nanoseconds) lie between its
  creation and the current instant.\<close>

definition pending_30_minutes :: "time \<Rightarrow> WorkflowRun \<Rightarrow> bool" where
  "pending_30_minutes now r \<longleftrightarrow>
     (WorkflowRunStatus r = Some ''queued'' \<or> WorkflowRunStatus r = Some ''pending'') \<and>
     (case WorkflowRunCreatedAt r of
        None \<Rightarrow> False
      | Some createdAt \<Rightarrow> 30 * 60 * 1000000000 \<le> now - createdAt)"

text \<open>Two targets have the same CI-domain when both have none or both have the same
  one; the invariant of the specification: no two stored targets that are not deleted
  have the same scope and the same CI-domain.\<close>

definition same_scope_domain :: "Target \<Rightarrow> Target \<Rightarrow> bool" where
  "same_scope_domain t u \<longleftrightarrow>
     Scope t = Scope u \<and> Valid (GHEDomain t) = Valid (GHEDomain u) \<and>
     (Valid (GHEDomain t) \<longrightarrow> String (GHEDomain t) = String (GHEDomain u))"

definition live :: "Target \<Rightarrow> bool" where
  "live t \<longleftrightarrow> Status t \<noteq> TargetStatusDeleted"

definition unique_scope_domain :: "Memory \<Rightarrow> bool" where
  "unique_scope_domain m \<longleftrightarrow>
     (\<forall>i \<in> dom (targets m). \<forall>j \<in> dom (targets m).
        i \<noteq> j \<and> live (the (targets m i)) \<and> live (the (targets m j)) \<longrightarrow>
        \<not> same_scope_domain (the (targets m i)) (the (targets m j)))"

section \<open>Sample data\<close>

definition target1 :: Target where
  "target1 = \<lparr>UUID = 1, Scope = ''acme/widget'',
     GHEDomain = \<lparr>String = ''https://ghe.example.com'', Valid = True\<rparr>,
     GitHubPersonalToken = ''secret'', GitHubToken = ''token'', TokenExpiredAt = 5000,
     ResourceType = ''nano'', RunnerUser = ''runner'',
     ProviderURL = \<lparr>String = '''', Valid = False\<rparr>, Status = ''active'',
     StatusDescription = \<lparr>String = '''', Valid = False\<rparr>, CreatedAt = 1000, UpdatedAt = 1000\<rparr>"

definition target2 :: Target where
  "target2 = target1\<lparr>UUID := 2, ResourceType := ''large''\<rparr>"

definition target3 :: Target where
  "target3 = target1\<lparr>UUID := 3, Scope := ''acme/gadget''\<rparr>"

definition job1 :: Job where
  "job1 = \<lparr>JobUUID = 1, JobTargetID = 1, JobGHEDomain = \<lparr>String = '''', Valid = False\<rparr>,
     JobRepository = ''acme/widget'', JobCheckEventJSON = ''{}'', JobRunID = Some 42,
     JobCreatedAt = 1000\<rparr>"

definition job2 :: Job where
  "job2 = job1\<lparr>JobUUID := 2, JobCreatedAt := 2000\<rparr>"

definition runner1 :: Runner where
  "runner1 = \<lparr>RunnerUUID = 1, RunnerTargetID = 1, RunnerShoesType = ''shoes-lxd'',
     RunnerCloudID = ''vm-1'', RunnerRepositoryURL = ''https://github.com/acme/widget'',
     RunnerResourceType = ''nano'', RunnerStatus = ''created'', RunnerCreatedAt = 1000,
     RunnerDeletedAt = None\<rparr>"

definition runner2 :: Runner where
  "runner2 = runner1\<lparr>RunnerUUID := 2, RunnerCloudID := ''vm-2'',
     RunnerRepositoryURL := ''https://github.com/acme/gadget'', RunnerCreatedAt := 2000\<rparr>"

definition no_rows :: MySQL where
  "no_rows = \<lparr>GetContext = (\<lambda>query args. Inl ErrNoRows), ExecContext = (\<lambda>query args. None)\<rparr>"

definition recent_log :: "time \<Rightarrow> Runner list \<times> error option" where
  "recent_log since = (filter (\<lambda>r. since < RunnerCreatedAt r) [runner1, runner2], None)"

definition run_old :: WorkflowRun where
  "run_old = \<lparr>WorkflowRunID = Some 1, WorkflowRunStatus = Some ''queued'',
     WorkflowRunCreatedAt = Some 0\<rparr>"

definition run_30 :: WorkflowRun where
  "run_30 = \<lparr>WorkflowRunID = Some 2, WorkflowRunStatus = Some ''pending'',
     WorkflowRunCreatedAt = Some 900000000000\<rparr>"

definition run_young :: WorkflowRun where
  "run_young = \<lparr>WorkflowRunID = Some 3, WorkflowRunStatus = Some ''queued'',
     WorkflowRunCreatedAt = Some 900000000001\<rparr>"

definition run_done :: WorkflowRun where
  "run_done = \<lparr>WorkflowRunID = Some 4, WorkflowRunStatus = Some ''completed'',
     WorkflowRunCreatedAt = None\<rparr>"

section \<open>Soft-delete of a runner\<close>

text \<open>
  C1, as the specification has it: after \<open>DeleteRunner\<close> on a stored runner the row is
  still there, marked deleted. The in-memory datastore does otherwise: with \<open>runner1\<close>
  stored, \<open>DeleteRunner\<close> succeeds and \<open>GetRunner\<close> then finds nothing.
\<close>

theorem DeleteRunner_retained_counterexample:
  "runners (snd (Memory_CreateRunner Memory_New runner1)) 1 = Some runner1
   \<and> fst (Memory_DeleteRunner (snd (Memory_CreateRunner Memory_New runner1)) 1 2000 ''completed'')
       = None
   \<and> fst (Memory_GetRunner
        (snd (Memory_DeleteRunner (snd (Memory_CreateRunner Memory_New runner1)) 1 2000
           ''completed'')) 1)
      = (None, Some ErrNotFound)"
  by (simp add: Memory_New_def Memory_DeleteRunner_def Memory_CreateRunner_def runner1_def
      Memory_GetRunner_def)

text \<open>
  C1, amended: \<open>DeleteRunner\<close> of the in-memory datastore succeeds and removes the
  runner of the given id, whatever the timestamp and the reason: a lookup of the id then
  reports \<open>ErrNotFound\<close>, every other runner, the targets and the jobs are as before.
\<close>

theorem DeleteRunner_removes:
  "fst (Memory_DeleteRunner m ident deletedAt reason) = None
   \<and> fst (Memory_GetRunner (snd (Memory_DeleteRunner m ident deletedAt reason)) ident)
       = (None, Some ErrNotFound)
   \<and> runners (snd (Memory_DeleteRunner m ident deletedAt reason)) = (runners m)(ident := None)
   \<and> (\<forall>other. other \<noteq> ident \<longrightarrow>
         runners (snd (Memory_DeleteRunner m ident deletedAt reason)) other = runners m other)
   \<and> targets (snd (Memory_DeleteRunner m ident deletedAt reason)) = targets m
   \<and> jobs (snd (Memory_DeleteRunner m ident deletedAt reason)) = jobs m"
  by (simp add: Memory_DeleteRunner_def Memory_GetRunner_def)

text \<open>The amended C1 at a datastore of two runners: the first is removed, the second
  stays.\<close>

theorem DeleteRunner_removes_witness:
  "runners (snd (Memory_DeleteRunner
       (snd (Memory_CreateRunner (snd (Memory_CreateRunner Memory_New runner1)) runner2))
       1 2000 ''completed'')) 1 = None
   \<and> runners (snd (Memory_DeleteRunner
       (snd (Memory_CreateRunner (snd (Memory_CreateRunner Memory_New runner1)) runner2))
       1 2000 ''completed'')) 2 = Some runner2"
  using DeleteRunner_removes
    [of "snd (Memory_CreateRunner (snd (Memory_CreateRunner Memory_New runner1)) runner2)"
      1 2000 "''completed''"]
  by (simp add: Memory_New_def Memory_CreateRunner_def runner1_def runner2_def)

text \<open>
  C6: \<open>DeleteRunner\<close> twice with the same arguments gives the result of calling it
  once, the second call reports success as the first does, and on an id that is not
  stored the call succeeds and changes nothing.
\<close>

theorem DeleteRunner_idempotent:
  "Memory_DeleteRunner (snd (Memory_DeleteRunner m ident deletedAt reason)) ident deletedAt reason
     = Memory_DeleteRunner m ident deletedAt reason
   \<and> fst (Memory_DeleteRunner (snd (Memory_DeleteRunner m ident deletedAt reason))
            ident deletedAt reason) = None
   \<and> (runners m ident = None \<longrightarrow> Memory_DeleteRunner m ident deletedAt reason = (None, m))"
  by (simp add: Memory_DeleteRunner_def fun_upd_idem)

text \<open>C6 at the empty datastore (the id is absent) and at one holding \<open>runner1\<close>.\<close>

theorem DeleteRunner_idempotent_witness:
  "runners Memory_New 1 = None
   \<and> Memory_DeleteRunner Memory_New 1 2000 ''completed'' = (None, Memory_New)
   \<and> Memory_DeleteRunner
        (snd (Memory_DeleteRunner (snd (Memory_CreateRunner Memory_New runner1)) 1 2000
           ''completed'')) 1 2000 ''completed''
      = (None, Memory_New)"
  using DeleteRunner_idempotent [of Memory_New 1 2000 "''completed''"]
    DeleteRunner_idempotent
      [of "snd (Memory_CreateRunner Memory_New runner1)" 1 2000 "''completed''"]
  by (simp add: Memory_New_def Memory_DeleteRunner_def Memory_CreateRunner_def runner1_def)

section \<open>The advisory lock in memory\<close>

text \<open>
  C7: in the in-memory datastore \<open>GetLock\<close> returns no error and \<open>IsLocked\<close> returns
  the constant for the unlocked state and no error, in every state; both leave the
  datastore as it was.
\<close>

theorem lock_is_noop:
  "Memory_GetLock m = (None, m)
   \<and> Memory_IsLocked datastore_IsNotLocked m = ((datastore_IsNotLocked, None), m)"
  by (simp add: Memory_GetLock_def Memory_IsLocked_def)

section \<open>Enqueueing jobs\<close>

text \<open>
  C3, as the specification has it: a second job for the same target and the same
  workflow run adds nothing. \<open>EnqueueJob\<close> stores under the job's own id: \<open>job2\<close> has
  the target and the run of \<open>job1\<close> and another id, and after both calls two jobs are
  pending.
\<close>

theorem EnqueueJob_duplicate_counterexample:
  "JobTargetID job2 = JobTargetID job1 \<and> JobRunID job2 = JobRunID job1
   \<and> fst (Memory_EnqueueJob (snd (Memory_EnqueueJob Memory_New job1)) job2) = None
   \<and> dom (jobs (snd (Memory_EnqueueJob Memory_New job1))) = {1}
   \<and> dom (jobs (snd (Memory_EnqueueJob (snd (Memory_EnqueueJob Memory_New job1)) job2))) = {1, 2}
   \<and> jobs (snd (Memory_EnqueueJob (snd (Memory_EnqueueJob Memory_New job1)) job2))
       \<noteq> jobs (snd (Memory_EnqueueJob Memory_New job1))"
proof -
  have "jobs (snd (Memory_EnqueueJob (snd (Memory_EnqueueJob Memory_New job1)) job2)) 2
          \<noteq> jobs (snd (Memory_EnqueueJob Memory_New job1)) 2"
    by (simp add: Memory_EnqueueJob_def Memory_New_def job1_def job2_def)
  then have "jobs (snd (Memory_EnqueueJob (snd (Memory_EnqueueJob Memory_New job1)) job2))
       \<noteq> jobs (snd (Memory_EnqueueJob Memory_New job1))"
    by metis
  then show ?thesis
    by (auto simp add: Memory_EnqueueJob_def Memory_New_def job1_def job2_def)
qed

text \<open>
  C3, amended: \<open>EnqueueJob\<close> is idempotent on the id of the job. It always succeeds;
  enqueueing the same job again changes nothing; a second job with the id of the first
  takes its place, so the set of pending ids is as before; a second job with another id
  is pending beside the first, whatever its target and its workflow run.
\<close>

theorem EnqueueJob_keyed_by_UUID:
  "fst (Memory_EnqueueJob m job) = None
   \<and> Memory_EnqueueJob (snd (Memory_EnqueueJob m job)) job = Memory_EnqueueJob m job
   \<and> (JobUUID job' = JobUUID job \<longrightarrow>
        dom (jobs (snd (Memory_EnqueueJob (snd (Memory_EnqueueJob m job)) job')))
          = dom (jobs (snd (Memory_EnqueueJob m job))))
   \<and> (JobUUID job' \<noteq> JobUUID job \<longrightarrow>
        jobs (snd (Memory_EnqueueJob (snd (Memory_EnqueueJob m job)) job')) (JobUUID job)
          = Some job
        \<and> jobs (snd (Memory_EnqueueJob (snd (Memory_EnqueueJob m job)) job')) (JobUUID job')
          = Some job')"
  by (simp add: Memory_EnqueueJob_def)

text \<open>The amended C3 at \<open>job1\<close> enqueued twice, and at \<open>job1\<close> followed by \<open>job2\<close>.\<close>

theorem EnqueueJob_keyed_by_UUID_witness:
  "JobUUID job2 \<noteq> JobUUID job1
   \<and> Memory_EnqueueJob (snd (Memory_EnqueueJob Memory_New job1)) job1
       = Memory_EnqueueJob Memory_New job1
   \<and> jobs (snd (Memory_EnqueueJob (snd (Memory_EnqueueJob Memory_New job1)) job2)) 1 = Some job1
   \<and> jobs (snd (Memory_EnqueueJob (snd (Memory_EnqueueJob Memory_New job1)) job2)) 2 = Some job2
   \<and> dom (jobs (snd (Memory_EnqueueJob (snd (Memory_EnqueueJob Memory_New job1)) job1)))
       = dom (jobs (snd (Memory_EnqueueJob Memory_New job1)))"
  using EnqueueJob_keyed_by_UUID [of Memory_New job1 job2]
    EnqueueJob_keyed_by_UUID [of Memory_New job1 job1]
  by (simp add: job1_def job2_def)

section \<open>Updating the status of a target\<close>

text \<open>
  C10: on a stored target \<open>UpdateTargetStatus\<close> succeeds and replaces the status and
  the status description of that target, the description being valid exactly when the
  given string is not empty; the other fields of the target, the other targets, the jobs
  and the runners stay as they are. On an id that is not stored it returns an error and
  the datastore is unchanged.
\<close>

theorem UpdateTargetStatus_frame:
  "(targets m targetID = Some t \<longrightarrow>
      Memory_UpdateTargetStatus m targetID newStatus description
        = (None, m\<lparr>targets := (targets m)(targetID \<mapsto>
             t\<lparr>Status := newStatus,
               StatusDescription := \<lparr>String = description, Valid = (description \<noteq> '''')\<rparr>\<rparr>)\<rparr>)
      \<and> jobs (snd (Memory_UpdateTargetStatus m targetID newStatus description)) = jobs m
      \<and> runners (snd (Memory_UpdateTargetStatus m targetID newStatus description)) = runners m
      \<and> (\<forall>other. other \<noteq> targetID \<longrightarrow>
            targets (snd (Memory_UpdateTargetStatus m targetID newStatus description)) other
              = targets m other))
   \<and> (targets m targetID = None \<longrightarrow>
        fst (Memory_UpdateTargetStatus m targetID newStatus description) \<noteq> None
        \<and> snd (Memory_UpdateTargetStatus m targetID newStatus description) = m)"
  by (cases "StatusDescription t") (auto simp add: Memory_UpdateTargetStatus_def Let_def)

text \<open>C10 at a datastore holding \<open>target1\<close>, and at the empty one.\<close>

theorem UpdateTargetStatus_frame_witness:
  "targets (snd (Memory_CreateTarget Memory_New target1)) 1 = Some target1
   \<and> targets Memory_New 1 = None
   \<and> Memory_UpdateTargetStatus (snd (Memory_CreateTarget Memory_New target1)) 1 ''err'' ''boom''
       = (None, Memory_New\<lparr>targets := [1 \<mapsto> target1\<lparr>Status := ''err'',
            StatusDescription := \<lparr>String = ''boom'', Valid = True\<rparr>\<rparr>]\<rparr>)
   \<and> Memory_UpdateTargetStatus Memory_New 1 ''err'' ''boom''
       = (Some (ErrorString ''not found''), Memory_New)"
  using UpdateTargetStatus_frame
      [of "snd (Memory_CreateTarget Memory_New target1)" 1 target1 "''err''" "''boom''"]
    UpdateTargetStatus_frame [of Memory_New 1 target1 "''err''" "''boom''"]
  by (simp add: Memory_CreateTarget_def Memory_New_def target1_def Memory_UpdateTargetStatus_def)

section \<open>Facts about the iteration over a map\<close>

text \<open>The entries visited are entries of the map; every key of the order that the map
  holds is visited; when the order lists keys of the map only, the keys are visited in
  that order.\<close>

lemma range_entries_stored:
  "(k, v) \<in> set (range_entries order m) \<Longrightarrow> m k = Some v"
  by (induction order) (auto simp add: range_entries_def split: option.splits)

lemma range_entries_member:
  "k \<in> set order \<Longrightarrow> m k = Some v \<Longrightarrow> (k, v) \<in> set (range_entries order m)"
  by (induction order) (auto simp add: range_entries_def split: option.splits)

lemma range_entries_keys:
  "set order \<subseteq> dom m \<Longrightarrow> map fst (range_entries order m) = order"
  by (induction order) (auto simp add: range_entries_def split: option.splits)

section \<open>Lookups\<close>

text \<open>The loop of the in-memory \<open>GetTargetByScope\<close> finds nothing exactly when no entry
  has the scope; what it finds is a stored target with the requested scope, and with an
  order that covers the map it finds one whenever one is stored.\<close>

lemma GetTargetByScope_loop_None:
  "Memory_GetTargetByScope_loop scope es = None \<longleftrightarrow> (\<forall>(k, t) \<in> set es. Scope t \<noteq> scope)"
  by (induction scope es rule: Memory_GetTargetByScope_loop.induct) auto

lemma GetTargetByScope_loop_Some:
  "Memory_GetTargetByScope_loop scope es = Some t \<Longrightarrow> Scope t = scope \<and> t \<in> snd ` set es"
  by (induction scope es rule: Memory_GetTargetByScope_loop.induct) (auto split: if_splits)

lemma Memory_GetTargetByScope_found:
  "fst (Memory_GetTargetByScope order m scope) = (Some t, e) \<Longrightarrow>
     e = None \<and> Scope t = scope \<and> t \<in> ran (targets m)"
  by (auto simp add: Memory_GetTargetByScope_def ran_def split: option.splits
      dest!: GetTargetByScope_loop_Some range_entries_stored)

lemma Memory_GetTargetByScope_complete:
  assumes "range_order order (targets m)" and "targets m k = Some t" and "Scope t = scope"
  shows "\<exists>u. fst (Memory_GetTargetByScope order m scope) = (Some u, None)"
proof -
  have "k \<in> set order" using assms by (auto simp add: range_order_def)
  then have "(k, t) \<in> set (range_entries order (targets m))"
    using assms(2) by (rule range_entries_member)
  then have "Memory_GetTargetByScope_loop scope (range_entries order (targets m)) \<noteq> None"
    using assms(3) by (auto simp add: GetTargetByScope_loop_None)
  then show ?thesis by (auto simp add: Memory_GetTargetByScope_def)
qed

text \<open>
  C9: a lookup of what is not stored reports \<open>ErrNotFound\<close> and no entity:
  \<open>GetTarget\<close> and \<open>GetRunner\<close> of the in-memory datastore on an id that is not a key,
  its \<open>GetTargetByScope\<close> on a scope that no stored target has (in every order of
  iteration), and the two lookups of the relational datastore when the database answers
  with no row. The in-memory lookups leave the datastore as it was, and no lookup returns
  a \<open>nil\<close> entity together with a \<open>nil\<close> error.
\<close>

theorem lookup_absent_ErrNotFound:
  "(targets m ident = None \<longrightarrow> Memory_GetTarget m ident = ((None, Some ErrNotFound), m))
   \<and> (runners m ident = None \<longrightarrow> Memory_GetRunner m ident = ((None, Some ErrNotFound), m))
   \<and> ((\<forall>t \<in> ran (targets m). Scope t \<noteq> scope) \<longrightarrow>
        Memory_GetTargetByScope order m scope = ((None, Some ErrNotFound), m))
   \<and> (GetContext db GetTarget_query [ArgString (uuid_String ident)] = Inl ErrNoRows \<longrightarrow>
        MySQL_GetTarget db ident = (None, Some ErrNotFound))
   \<and> (GetContext db (GetTargetByScope_query gheDomain scope) [] = Inl ErrNoRows \<longrightarrow>
        MySQL_GetTargetByScope db gheDomain scope = (None, Some ErrNotFound))
   \<and> snd (Memory_GetTarget m ident) = m
   \<and> snd (Memory_GetRunner m ident) = m
   \<and> snd (Memory_GetTargetByScope order m scope) = m
   \<and> fst (Memory_GetTarget m ident) \<noteq> (None, None)
   \<and> fst (Memory_GetRunner m ident) \<noteq> (None, None)
   \<and> fst (Memory_GetTargetByScope order m scope) \<noteq> (None, None)
   \<and> MySQL_GetTarget db ident \<noteq> (None, None)
   \<and> MySQL_GetTargetByScope db gheDomain scope \<noteq> (None, None)"
proof -
  have scope: "Memory_GetTargetByScope order m scope = ((None, Some ErrNotFound), m)"
    if "\<forall>t \<in> ran (targets m). Scope t \<noteq> scope"
  proof -
    have "\<forall>(k, t) \<in> set (range_entries order (targets m)). Scope t \<noteq> scope"
      using that by (auto simp add: ran_def dest!: range_entries_stored)
    then have "Memory_GetTargetByScope_loop scope (range_entries order (targets m)) = None"
      by (simp add: GetTargetByScope_loop_None)
    then show ?thesis by (simp add: Memory_GetTargetByScope_def)
  qed
  have mem: "(targets m ident = None \<longrightarrow> Memory_GetTarget m ident = ((None, Some ErrNotFound), m))
    \<and> (runners m ident = None \<longrightarrow> Memory_GetRunner m ident = ((None, Some ErrNotFound), m))
    \<and> snd (Memory_GetTarget m ident) = m \<and> snd (Memory_GetRunner m ident) = m
    \<and> snd (Memory_GetTargetByScope order m scope) = m
    \<and> fst (Memory_GetTarget m ident) \<noteq> (None, None)
    \<and> fst (Memory_GetRunner m ident) \<noteq> (None, None)
    \<and> fst (Memory_GetTargetByScope order m scope) \<noteq> (None, None)"
    by (simp add: Memory_GetTarget_def Memory_GetRunner_def Memory_GetTargetByScope_def
        split: option.splits)
  have sql: "(GetContext db GetTarget_query [ArgString (uuid_String ident)] = Inl ErrNoRows \<longrightarrow>
        MySQL_GetTarget db ident = (None, Some ErrNotFound))
   \<and> (GetContext db (GetTargetByScope_query gheDomain scope) [] = Inl ErrNoRows \<longrightarrow>
        MySQL_GetTargetByScope db gheDomain scope = (None, Some ErrNotFound))
   \<and> MySQL_GetTarget db ident \<noteq> (None, None)
   \<and> MySQL_GetTargetByScope db gheDomain scope \<noteq> (None, None)"
    by (simp add: MySQL_GetTarget_def MySQL_GetTargetByScope_def split: sum.splits)
  show ?thesis using scope mem sql by blast
qed

text \<open>C9 at a datastore holding \<open>target1\<close> only, asked for the id 2 and the scope
  \<open>acme/gadget\<close>, and at a database without rows.\<close>

theorem lookup_absent_ErrNotFound_witness:
  "targets (snd (Memory_CreateTarget Memory_New target1)) 2 = None
   \<and> runners (snd (Memory_CreateTarget Memory_New target1)) 2 = None
   \<and> ran (targets (snd (Memory_CreateTarget Memory_New target1))) = {target1}
   \<and> Scope target1 \<noteq> ''acme/gadget''
   \<and> GetContext no_rows GetTarget_query [ArgString (uuid_String 2)] = Inl ErrNoRows
   \<and> GetContext no_rows (GetTargetByScope_query '''' ''acme/gadget'') [] = Inl ErrNoRows
   \<and> Memory_GetTarget (snd (Memory_CreateTarget Memory_New target1)) 2
       = ((None, Some ErrNotFound), snd (Memory_CreateTarget Memory_New target1))
   \<and> Memory_GetRunner (snd (Memory_CreateTarget Memory_New target1)) 2
       = ((None, Some ErrNotFound), snd (Memory_CreateTarget Memory_New target1))
   \<and> Memory_GetTargetByScope [1] (snd (Memory_CreateTarget Memory_New target1)) ''acme/gadget''
       = ((None, Some ErrNotFound), snd (Memory_CreateTarget Memory_New target1))
   \<and> MySQL_GetTarget no_rows 2 = (None, Some ErrNotFound)
   \<and> MySQL_GetTargetByScope no_rows '''' ''acme/gadget'' = (None, Some ErrNotFound)"
proof -
  have a: "targets (snd (Memory_CreateTarget Memory_New target1)) 2 = None"
    and b: "runners (snd (Memory_CreateTarget Memory_New target1)) 2 = None"
    and c: "ran (targets (snd (Memory_CreateTarget Memory_New target1))) = {target1}"
    and d: "Scope target1 \<noteq> ''acme/gadget''"
    and e: "GetContext no_rows GetTarget_query [ArgString (uuid_String 2)] = Inl ErrNoRows"
    and f: "GetContext no_rows (GetTargetByScope_query '''' ''acme/gadget'') [] = Inl ErrNoRows"
    by (simp_all add: Memory_CreateTarget_def Memory_New_def target1_def no_rows_def)
  show ?thesis
    using a b c d e f
      lookup_absent_ErrNotFound
        [of "snd (Memory_CreateTarget Memory_New target1)" 2 "''acme/gadget''" "[1]" no_rows "''''"]
    by simp
qed

section \<open>Finding a target by scope and CI-domain\<close>

text \<open>
  C4 asks every backend to return only a target of the requested scope and the
  requested CI-domain. The relational \<open>GetTargetByScope\<close> puts the condition on
  \<open>ghe_domain\<close> into its statement; the in-memory one takes the scope alone. With
  \<open>target1\<close> of the domain \<open>https://ghe.example.com\<close> stored, a caller that looks for
  the scope \<open>acme/widget\<close> at the domain \<open>https://other.example.com\<close> gets \<open>target1\<close>
  from the in-memory datastore, a target of another domain.
\<close>

theorem GetTargetByScope_ignores_domain:
  "GHEDomain target1 = \<lparr>String = ''https://ghe.example.com'', Valid = True\<rparr>
   \<and> range_order [1] (targets (snd (Memory_CreateTarget Memory_New target1)))
   \<and> fst (Memory_GetTargetByScope [1] (snd (Memory_CreateTarget Memory_New target1))
        ''acme/widget'') = (Some target1, None)
   \<and> String (GHEDomain target1) \<noteq> ''https://other.example.com''
   \<and> GetTargetByScope_query ''https://other.example.com'' ''acme/widget''
       = GetTargetByScope_query '''' ''acme/widget''
           @ '' AND ghe_domain = '' @ [CHR 0x22] @ ''https://other.example.com'' @ [CHR 0x22]"
  by (simp add: Memory_CreateTarget_def Memory_New_def target1_def Memory_GetTargetByScope_def
      range_entries_def range_order_def GetTargetByScope_query_def)

section \<open>Creating a target\<close>

text \<open>
  C8, as the specification has it: \<open>CreateTarget\<close> keeps the pairs of scope and
  CI-domain of the targets that are not deleted distinct. The in-memory datastore stores
  under the id: with \<open>target1\<close> stored, creating \<open>target2\<close> of the same scope and domain
  and another id succeeds, and both are stored.
\<close>

theorem CreateTarget_duplicate_counterexample:
  "unique_scope_domain (snd (Memory_CreateTarget Memory_New target1))
   \<and> live target1 \<and> live target2 \<and> same_scope_domain target1 target2
   \<and> fst (Memory_CreateTarget (snd (Memory_CreateTarget Memory_New target1)) target2) = None
   \<and> targets (snd (Memory_CreateTarget (snd (Memory_CreateTarget Memory_New target1)) target2)) 1
       = Some target1
   \<and> targets (snd (Memory_CreateTarget (snd (Memory_CreateTarget Memory_New target1)) target2)) 2
       = Some target2
   \<and> \<not> unique_scope_domain
         (snd (Memory_CreateTarget (snd (Memory_CreateTarget Memory_New target1)) target2))"
  by (simp add: unique_scope_domain_def Memory_CreateTarget_def Memory_New_def target1_def
      target2_def live_def same_scope_domain_def TargetStatusDeleted_def)

lemma same_scope_domain_sym: "same_scope_domain t u \<Longrightarrow> same_scope_domain u t"
  by (auto simp add: same_scope_domain_def)

lemma CreateTarget_keeps_unique:
  assumes "unique_scope_domain m"
    and "\<forall>j \<in> dom (targets m). j \<noteq> UUID target \<and> live (the (targets m j)) \<and> live target \<longrightarrow>
           \<not> same_scope_domain target (the (targets m j))"
  shows "unique_scope_domain (snd (Memory_CreateTarget m target))"
  unfolding unique_scope_domain_def
proof (intro ballI impI)
  fix i j
  assume i: "i \<in> dom (targets (snd (Memory_CreateTarget m target)))"
    and j: "j \<in> dom (targets (snd (Memory_CreateTarget m target)))"
    and h: "i \<noteq> j \<and> live (the (targets (snd (Memory_CreateTarget m target)) i))
              \<and> live (the (targets (snd (Memory_CreateTarget m target)) j))"
  show "\<not> same_scope_domain (the (targets (snd (Memory_CreateTarget m target)) i))
           (the (targets (snd (Memory_CreateTarget m target)) j))"
  proof (cases "i = UUID target")
    case True
    then have "j \<noteq> UUID target" "j \<in> dom (targets m)"
      using h j by (auto simp add: Memory_CreateTarget_def)
    then show ?thesis
      using True h assms(2) by (auto simp add: Memory_CreateTarget_def)
  next
    case False
    then have i': "i \<in> dom (targets m)" using i by (auto simp add: Memory_CreateTarget_def)
    show ?thesis
    proof (cases "j = UUID target")
      case True
      then show ?thesis
        using False i' h assms(2)
        by (auto simp add: Memory_CreateTarget_def dest: same_scope_domain_sym)
    next
      case jF: False
      then have "j \<in> dom (targets m)" using j by (auto simp add: Memory_CreateTarget_def)
      then show ?thesis
        using False jF i' h assms(1)
        by (auto simp add: Memory_CreateTarget_def unique_scope_domain_def)
    qed
  qed
qed

lemma CreateTarget_breaks_unique:
  assumes "j \<in> dom (targets m)" and "j \<noteq> UUID target"
    and "live (the (targets m j))" and "live target"
    and "same_scope_domain target (the (targets m j))"
  shows "\<not> unique_scope_domain (snd (Memory_CreateTarget m target))"
proof
  assume u: "unique_scope_domain (snd (Memory_CreateTarget m target))"
  have new: "targets (snd (Memory_CreateTarget m target)) (UUID target) = Some target"
    by (simp add: Memory_CreateTarget_def)
  have old: "targets (snd (Memory_CreateTarget m target)) j = targets m j"
    using assms(2) by (simp add: Memory_CreateTarget_def)
  have "UUID target \<in> dom (targets (snd (Memory_CreateTarget m target)))"
    using new by blast
  moreover have "j \<in> dom (targets (snd (Memory_CreateTarget m target)))"
    using assms(1) old by (simp add: dom_def)
  moreover have "UUID target \<noteq> j" using assms(2) by simp
  ultimately have "\<not> (live (the (targets (snd (Memory_CreateTarget m target)) (UUID target)))
      \<and> live (the (targets (snd (Memory_CreateTarget m target)) j)))
    \<or> \<not> same_scope_domain (the (targets (snd (Memory_CreateTarget m target)) (UUID target)))
         (the (targets (snd (Memory_CreateTarget m target)) j))"
    using u unfolding unique_scope_domain_def by blast
  then show False
    using assms(3,4,5) by (simp add: new old)
qed

text \<open>
  C8, amended: the in-memory \<open>CreateTarget\<close> always succeeds and stores the target
  under its id, leaving jobs and runners alone. From a datastore that has the invariant,
  the invariant holds afterwards if and only if no stored target of another id that is
  not deleted has the scope and the CI-domain of the new target, itself not deleted.
  \<open>CreateTarget\<close> does not look for such a target: where there is one, the call
  succeeds all the same and the invariant is lost.
\<close>

theorem CreateTarget_preserves_unique:
  "fst (Memory_CreateTarget m target) = None
   \<and> targets (snd (Memory_CreateTarget m target)) = (targets m)(UUID target \<mapsto> target)
   \<and> jobs (snd (Memory_CreateTarget m target)) = jobs m
   \<and> runners (snd (Memory_CreateTarget m target)) = runners m
   \<and> (unique_scope_domain m \<longrightarrow>
        (unique_scope_domain (snd (Memory_CreateTarget m target)) \<longleftrightarrow>
           (\<forall>j \<in> dom (targets m).
              j \<noteq> UUID target \<and> live (the (targets m j)) \<and> live target \<longrightarrow>
              \<not> same_scope_domain target (the (targets m j)))))
   \<and> ((\<exists>j \<in> dom (targets m).
          j \<noteq> UUID target \<and> live (the (targets m j)) \<and> live target
          \<and> same_scope_domain target (the (targets m j))) \<longrightarrow>
        fst (Memory_CreateTarget m target) = None
        \<and> \<not> unique_scope_domain (snd (Memory_CreateTarget m target)))"
proof -
  have always: "fst (Memory_CreateTarget m target) = None
   \<and> targets (snd (Memory_CreateTarget m target)) = (targets m)(UUID target \<mapsto> target)
   \<and> jobs (snd (Memory_CreateTarget m target)) = jobs m
   \<and> runners (snd (Memory_CreateTarget m target)) = runners m"
    by (simp add: Memory_CreateTarget_def)
  have broken: "\<not> unique_scope_domain (snd (Memory_CreateTarget m target))"
    if "\<exists>j \<in> dom (targets m).
          j \<noteq> UUID target \<and> live (the (targets m j)) \<and> live target
          \<and> same_scope_domain target (the (targets m j))"
    using that CreateTarget_breaks_unique [of _ m target] by blast
  have kept: "unique_scope_domain (snd (Memory_CreateTarget m target))"
    if "unique_scope_domain m"
      and "\<forall>j \<in> dom (targets m).
              j \<noteq> UUID target \<and> live (the (targets m j)) \<and> live target \<longrightarrow>
              \<not> same_scope_domain target (the (targets m j))"
    using that by (rule CreateTarget_keeps_unique)
  show ?thesis
    using always broken kept by blast
qed

text \<open>The amended C8 at a datastore holding \<open>target1\<close>: the new \<open>target3\<close> of another
  scope keeps the invariant, the new \<open>target2\<close> of the same scope and domain is stored
  and breaks it.\<close>

theorem CreateTarget_preserves_unique_witness:
  "unique_scope_domain (snd (Memory_CreateTarget Memory_New target1))
   \<and> \<not> same_scope_domain target3 target1
   \<and> same_scope_domain target2 target1
   \<and> fst (Memory_CreateTarget (snd (Memory_CreateTarget Memory_New target1)) target3) = None
   \<and> unique_scope_domain
       (snd (Memory_CreateTarget (snd (Memory_CreateTarget Memory_New target1)) target3))
   \<and> fst (Memory_CreateTarget (snd (Memory_CreateTarget Memory_New target1)) target2) = None
   \<and> \<not> unique_scope_domain
       (snd (Memory_CreateTarget (snd (Memory_CreateTarget Memory_New target1)) target2))"
proof -
  have a: "unique_scope_domain (snd (Memory_CreateTarget Memory_New target1))"
    by (simp add: unique_scope_domain_def Memory_CreateTarget_def Memory_New_def)
  have b: "\<not> same_scope_domain target3 target1"
    by (simp add: same_scope_domain_def target3_def target1_def)
  have b': "same_scope_domain target2 target1"
    by (simp add: same_scope_domain_def target2_def target1_def)
  have c: "\<forall>j \<in> dom (targets (snd (Memory_CreateTarget Memory_New target1))).
     j \<noteq> UUID target3 \<and> live (the (targets (snd (Memory_CreateTarget Memory_New target1)) j))
       \<and> live target3 \<longrightarrow>
     \<not> same_scope_domain target3 (the (targets (snd (Memory_CreateTarget Memory_New target1)) j))"
    using b by (simp add: Memory_CreateTarget_def Memory_New_def target1_def)
  have d: "\<exists>j \<in> dom (targets (snd (Memory_CreateTarget Memory_New target1))).
     j \<noteq> UUID target2 \<and> live (the (targets (snd (Memory_CreateTarget Memory_New target1)) j))
       \<and> live target2
       \<and> same_scope_domain target2 (the (targets (snd (Memory_CreateTarget Memory_New target1)) j))"
    using b' by (simp add: Memory_CreateTarget_def Memory_New_def target1_def target2_def
        live_def TargetStatusDeleted_def)
  show ?thesis
    using a b b' c d
      CreateTarget_preserves_unique [of "snd (Memory_CreateTarget Memory_New target1)" target3]
      CreateTarget_preserves_unique [of "snd (Memory_CreateTarget Memory_New target1)" target2]
    by blast
qed

section \<open>The recent repositories\<close>

text \<open>The keys of the set of URLs are the URLs of the runners; with an order of
  iteration that covers this set, the result is that order: every repository of a
  recent runner once.\<close>

lemma dom_getRecentRepositories_unique:
  "dom (getRecentRepositories_unique acc rs) = dom acc \<union> RunnerRepositoryURL ` set rs"
proof (induction rs arbitrary: acc)
  case Nil
  show ?case by simp
next
  case (Cons r rs)
  show ?case
  proof (cases "acc (RunnerRepositoryURL r) = None")
    case True
    then have "getRecentRepositories_unique acc (r # rs)
        = getRecentRepositories_unique (acc(RunnerRepositoryURL r \<mapsto> ())) rs"
      by (simp add: Let_def)
    then show ?thesis
      using Cons.IH [of "acc(RunnerRepositoryURL r \<mapsto> ())"] by (simp del: fun_upd_apply)
  next
    case False
    then have "RunnerRepositoryURL r \<in> dom acc" by auto
    moreover have "getRecentRepositories_unique acc (r # rs) = getRecentRepositories_unique acc rs"
      using False by (simp add: Let_def)
    ultimately show ?thesis
      using Cons.IH [of acc] by auto
  qed
qed

lemma getRecentRepositories_deduplicated:
  assumes "ds (now + (- 24 * Hour)) = (recentRunners, None)"
    and "range_order order (getRecentRepositories_unique Map.empty
           (sort_key (\<lambda>r. - RunnerCreatedAt r) recentRunners))"
  shows "getRecentRepositories now ds order = (order, None)
    \<and> distinct order \<and> set order = RunnerRepositoryURL ` set recentRunners"
  using assms
  by (simp add: getRecentRepositories_def Let_def range_order_def range_entries_keys
      dom_getRecentRepositories_unique)

text \<open>
  C5 asks for every repository once and for the repository of the newest runner first.
  The first part holds (above). The order does not: the runners are sorted, newest
  first, and then collected into a map, whose order of iteration is the runtime's. With
  \<open>runner2\<close> newer than \<open>runner1\<close>, and the runtime visiting the URL of \<open>runner1\<close>
  first, the result has the repository of the older runner in front.
\<close>

theorem getRecentRepositories_order_lost:
  "RunnerCreatedAt runner1 < RunnerCreatedAt runner2
   \<and> sort_key (\<lambda>r. - RunnerCreatedAt r) (fst (recent_log (3000 + (- 24 * Hour))))
       = [runner2, runner1]
   \<and> range_order [RunnerRepositoryURL runner1, RunnerRepositoryURL runner2]
       (getRecentRepositories_unique Map.empty [runner2, runner1])
   \<and> getRecentRepositories 3000 recent_log
        [RunnerRepositoryURL runner1, RunnerRepositoryURL runner2]
       = ([RunnerRepositoryURL runner1, RunnerRepositoryURL runner2], None)
   \<and> [RunnerRepositoryURL runner1, RunnerRepositoryURL runner2]
       \<noteq> [RunnerRepositoryURL runner2, RunnerRepositoryURL runner1]"
  by (simp add: getRecentRepositories_def recent_log_def Hour_def Minute_def runner1_def
      runner2_def range_order_def range_entries_def Let_def insert_commute)

section \<open>The pending-run sweep\<close>

text \<open>\<open>Minutes\<close> is the duration over the length of a minute, so it reaches 30 exactly
  from 30 minutes of nanoseconds on, and the saturation of \<open>Sub\<close> does not matter at
  this bound.\<close>

lemma Minutes_eq: "Minutes d = real_of_int d / 60000000000"
proof -
  define q where "q = d sdiv Minute"
  define r where "r = d smod Minute"
  have "q * Minute + r = d"
    unfolding q_def r_def by (rule sdiv_mult_smod_eq)
  then have "real_of_int (q * Minute + r) = real_of_int d"
    by (simp only:)
  then have "real_of_int q * real_of_int Minute + real_of_int r = real_of_int d"
    by (simp only: of_int_add of_int_mult)
  moreover have "real_of_int Minute = 60000000000"
    by (simp add: Minute_def)
  ultimately have e: "real_of_int q * 60000000000 + real_of_int r = real_of_int d"
    by (simp only:)
  have "Minutes d = real_of_int q + real_of_int r / 60000000000"
    unfolding Minutes_def q_def r_def by (simp only: mult.commute)
  also have "\<dots> = (real_of_int q * 60000000000 + real_of_int r) / 60000000000"
    by (simp add: add_divide_distrib)
  also have "\<dots> = real_of_int d / 60000000000"
    by (simp only: e)
  finally show ?thesis .
qed

lemma Minutes_ge_30: "Minutes d \<ge> 30 \<longleftrightarrow> 1800000000000 \<le> d"
proof -
  have "Minutes d \<ge> 30 \<longleftrightarrow> real_of_int (1800000000000) \<le> real_of_int d"
    by (simp add: Minutes_eq field_simps)
  also have "\<dots> \<longleftrightarrow> 1800000000000 \<le> d"
    by (simp only: of_int_le_iff)
  finally show ?thesis by simp
qed



lemma time_Since_ge: "1800000000000 \<le> time_Since now t \<longleftrightarrow> 1800000000000 \<le> now - t"
  by (auto simp add: time_Since_def time_Sub_def Let_def maxDuration_def minDuration_def)

lemma selected_iff:
  "WorkflowRunCreatedAt r = Some createdAt \<Longrightarrow>
   (GetStatus r = ''queued'' \<or> GetStatus r = ''pending'')
     \<and> Minutes (time_Since now createdAt) \<ge> real_of_int 30
   \<longleftrightarrow> pending_30_minutes now r"
  by (auto simp add: pending_30_minutes_def GetStatus_def Minutes_ge_30 time_Since_ge
      split: option.splits)



text \<open>The loop appends to the runs collected so far those of the remaining runs that
  the specification selects, in their order; it panics at the first run in \<open>queued\<close> or
  \<open>pending\<close> that has no creation time.\<close>

lemma getPendingRunByRepo_loop_filter:
  assumes "\<forall>r \<in> set runs. GetStatus r = ''queued'' \<or> GetStatus r = ''pending'' \<longrightarrow>
             WorkflowRunCreatedAt r \<noteq> None"
  shows "getPendingRunByRepo_loop now acc runs = Return (acc @ filter (pending_30_minutes now) runs)"
  using assms
proof (induction runs arbitrary: acc)
  case Nil
  then show ?case by simp
next
  case (Cons r rs)
  have rest: "\<And>acc'. getPendingRunByRepo_loop now acc' rs
      = Return (acc' @ filter (pending_30_minutes now) rs)"
    using Cons by simp
  show ?case
  proof (cases "GetStatus r = ''queued'' \<or> GetStatus r = ''pending''")
    case True
    then obtain c where c: "WorkflowRunCreatedAt r = Some c"
      using Cons.prems by auto
    show ?thesis
      using True c rest selected_iff [OF c, of now]
      by (auto simp add: Let_def)
  next
    case False
    then have "\<not> pending_30_minutes now r"
      by (auto simp add: pending_30_minutes_def GetStatus_def)
    then show ?thesis using False rest by simp
  qed
qed

lemma getPendingRunByRepo_loop_panics:
  "GetStatus r = ''queued'' \<or> GetStatus r = ''pending'' \<Longrightarrow> WorkflowRunCreatedAt r = None \<Longrightarrow>
   \<forall>r \<in> set before. GetStatus r = ''queued'' \<or> GetStatus r = ''pending'' \<longrightarrow>
             WorkflowRunCreatedAt r \<noteq> None \<Longrightarrow>
   \<exists>p. getPendingRunByRepo_loop now acc (before @ r # after) = Panic p"
  by (induction before arbitrary: acc) (auto simp add: Let_def)

text \<open>
  C2: for a list of runs from the CI service, each run in \<open>queued\<close> or \<open>pending\<close>
  carrying its creation time, \<open>getPendingRunByRepo\<close> returns the runs of the list, in
  their order, that the specification selects: a run is in the result if and only if it
  is in the list, its status is \<open>queued\<close> or \<open>pending\<close>, and at least 30 minutes have
  passed since its creation.
\<close>

theorem getPendingRunByRepo_selects:
  assumes "\<forall>r \<in> set runs. GetStatus r = ''queued'' \<or> GetStatus r = ''pending'' \<longrightarrow>
             WorkflowRunCreatedAt r \<noteq> None"
  shows "getPendingRunByRepo now (runs, None)
           = Return (filter (pending_30_minutes now) runs, None)
    \<and> (\<forall>r. r \<in> set (filter (pending_30_minutes now) runs) \<longleftrightarrow>
          r \<in> set runs
          \<and> (GetStatus r = ''queued'' \<or> GetStatus r = ''pending'')
          \<and> (\<exists>createdAt. WorkflowRunCreatedAt r = Some createdAt
                \<and> 30 * Minute \<le> now - createdAt))"
proof -
  have "getPendingRunByRepo now (runs, None)
           = Return (filter (pending_30_minutes now) runs, None)"
    using getPendingRunByRepo_loop_filter [OF assms, of now "[]"]
    by (simp add: getPendingRunByRepo_def)
  moreover have "pending_30_minutes now r \<longleftrightarrow>
      (GetStatus r = ''queued'' \<or> GetStatus r = ''pending'')
          \<and> (\<exists>createdAt. WorkflowRunCreatedAt r = Some createdAt
                \<and> 30 * Minute \<le> now - createdAt)" for r
    by (auto simp add: pending_30_minutes_def GetStatus_def Minute_def split: option.splits)
  ultimately show ?thesis by simp
qed

text \<open>C2 at four runs, 45 minutes after the epoch: one queued for 45 minutes, one queued
  a nanosecond less than 30 minutes, one completed, one pending for 30 minutes
  exactly.\<close>

theorem getPendingRunByRepo_selects_witness:
  "getPendingRunByRepo 2700000000000 ([run_old, run_young, run_done, run_30], None)
     = Return ([run_old, run_30], None)"
proof -
  have h: "\<forall>r \<in> set [run_old, run_young, run_done, run_30].
      GetStatus r = ''queued'' \<or> GetStatus r = ''pending'' \<longrightarrow> WorkflowRunCreatedAt r \<noteq> None"
    by (simp add: run_old_def run_young_def run_done_def run_30_def GetStatus_def)
  show ?thesis
    using getPendingRunByRepo_selects [OF h, of 2700000000000]
    by (simp add: pending_30_minutes_def run_old_def run_young_def run_done_def run_30_def)
qed

end
